theory Spec2Isabelle
  imports Complex_Main "HOL-Library.Word"
begin

section \<open>JavaScript values used by App.js\<close>

text \<open>
  A JavaScript string is a sequence of UTF-16 code units. ASCII literals of the source
  are written with \<open>js\<close>; characters outside ASCII are given by their code units.
\<close>

type_synonym code_unit = "16 word"
type_synonym jsstring = "code_unit list"

definition js :: "string \<Rightarrow> jsstring" where
  "js s = map of_char s"

text \<open>
  A number is an IEEE double: every finite double is a rational (the sign of zero is not
  tracked). No arithmetic is done on numbers by the handlers modelled here; only their
  truthiness is read.
\<close>

datatype number = Finite rat | NaN | PosInfinity | NegInfinity

text \<open>
  The values a parsed HTTP response can be, which is what every \<open>output\<close> state and
  every \<open>data\<close> prop of \<open>ExportButton\<close> holds. An object is its list of own properties.
\<close>

datatype json =
    JNull
  | JBool bool
  | JNum number
  | JStr jsstring
  | JArr "json list"
  | JObj "(jsstring \<times> json) list"

text \<open>
  Exceptions that the handlers catch: a property read from \<open>null\<close> and a failed \<open>fetch\<close>
  throw a TypeError, \<open>response.json()\<close> on text that is not JSON a SyntaxError, and a
  failed axios call an AxiosError.
\<close>

datatype exn = TypeError | SyntaxError | AxiosError

text \<open>
  Reading a property \<open>v.k\<close>: \<open>None\<close> is \<open>undefined\<close>. Reading from \<open>null\<close> throws.
  The keys read by this program (id, content, content_type, detail) are not built-in
  properties of strings, arrays, numbers or booleans, so those give \<open>undefined\<close>.
\<close>

fun get_prop :: "json \<Rightarrow> jsstring \<Rightarrow> exn + json option" where
  "get_prop JNull k = Inl TypeError"
| "get_prop (JObj fields) k = Inr (map_of fields k)"
| "get_prop v k = Inr None"

text \<open>Truthiness, as tested by \<open>if\<close>, \<open>!\<close>, \<open>&&\<close> and \<open>||\<close>.\<close>

fun truthy :: "json option \<Rightarrow> bool" where
  "truthy None = False"
| "truthy (Some JNull) = False"
| "truthy (Some (JBool b)) = b"
| "truthy (Some (JNum (Finite q))) = (q \<noteq> 0)"
| "truthy (Some (JNum NaN)) = False"
| "truthy (Some (JNum PosInfinity)) = True"
| "truthy (Some (JNum NegInfinity)) = True"
| "truthy (Some (JStr s)) = (s \<noteq> [])"
| "truthy (Some (JArr xs)) = True"
| "truthy (Some (JObj fields)) = True"

subsection \<open>String.prototype.split and String.prototype.trim\<close>

text \<open>
  \<open>s.split(sep)\<close> for a one-unit separator: the pieces between the separators, so a string
  with n separators has n + 1 pieces and the empty string has the one piece \<open>''\<close>.
\<close>

fun split :: "code_unit \<Rightarrow> jsstring \<Rightarrow> jsstring list" where
  "split sep [] = [[]]"
| "split sep (c # cs) =
     (if c = sep then [] # split sep cs
      else (case split sep cs of
              [] \<Rightarrow> [[c]]
            | p # ps \<Rightarrow> (c # p) # ps))"

text \<open>
  The code units that \<open>trim\<close> strips: ECMAScript WhiteSpace and LineTerminator.
\<close>

definition is_whitespace :: "code_unit \<Rightarrow> bool" where
  "is_whitespace c =
     (c = 0x0009 \<or> c = 0x000A \<or> c = 0x000B \<or> c = 0x000C \<or> c = 0x000D \<or> c = 0x0020
      \<or> c = 0x00A0 \<or> c = 0x1680 \<or> (0x2000 \<le> c \<and> c \<le> 0x200A)
      \<or> c = 0x2028 \<or> c = 0x2029 \<or> c = 0x202F \<or> c = 0x205F \<or> c = 0x3000 \<or> c = 0xFEFF)"

definition trim :: "jsstring \<Rightarrow> jsstring" where
  "trim s = rev (dropWhile is_whitespace (rev (dropWhile is_whitespace s)))"

section \<open>Sidebar and the view router\<close>

record menu_item =
  id' :: jsstring
  name :: jsstring
  icon :: jsstring
  desc :: jsstring

definition menuItems :: "menu_item list" where
  "menuItems =
    [\<lparr>id' = js ''dashboard'', name = js ''Dashboard'', icon = [0xD83D, 0xDCCA],
       desc = js ''Overview & Analytics''\<rparr>,
     \<lparr>id' = js ''standup'', name = js ''Daily Standup'', icon = [0xD83D, 0xDC65],
       desc = js ''AI Update Composer''\<rparr>,
     \<lparr>id' = js ''sprint'', name = js ''Sprint Planning'', icon = [0x26A1],
       desc = js ''AI Story Splitter''\<rparr>,
     \<lparr>id' = js ''ticket'', name = js ''Task Generator'', icon = [0xD83D, 0xDCCB],
       desc = js ''Smart Ticket Builder''\<rparr>,
     \<lparr>id' = js ''retro'', name = js ''Retrospective'', icon = [0xD83D, 0xDD04],
       desc = js ''Sprint Reflection Tool''\<rparr>,
     \<lparr>id' = js ''blockers'', name = js ''Blocker Detection'', icon = [0xD83D, 0xDEA8],
       desc = js ''Impediment Monitor''\<rparr>,
     \<lparr>id' = js ''insights'', name = js ''AI Insights'', icon = [0xD83E, 0xDDE0],
       desc = js ''Predictive Analytics''\<rparr>,
     \<lparr>id' = js ''integrations'', name = js ''Integrations'', icon = [0xD83D, 0xDD17],
       desc = js ''JIRA '' @ [0x2022] @ js '' Slack '' @ [0x2022] @ js '' GitHub''\<rparr>]"

text \<open>
  What \<open>renderActiveModule\<close> returns: one of the five module components, or a
  \<open>div\<close> of class construction-notice with a fixed text.
\<close>

datatype component =
    Dashboard
  | StandupModule
  | SmartTicketGenerator
  | BlockersModule
  | RetroModule
  | ConstructionNotice jsstring

text \<open>The \<open>switch\<close> on \<open>activeTab\<close>, in the source's case order, with its default.\<close>

definition renderActiveModule :: "jsstring \<Rightarrow> component" where
  "renderActiveModule activeTab =
     (if activeTab = js ''standup'' then StandupModule
      else if activeTab = js ''ticket'' then SmartTicketGenerator
      else if activeTab = js ''sprint'' then
        ConstructionNotice
          ([0x26A1] @ js '' Advanced Sprint Planner - Implementation in Progress'')
      else if activeTab = js ''blockers'' then BlockersModule
      else if activeTab = js ''retro'' then RetroModule
      else if activeTab = js ''insights'' then
        ConstructionNotice
          ([0xD83E, 0xDDE0] @ js '' AI Insights Dashboard - Implementation in Progress'')
      else if activeTab = js ''integrations'' then
        ConstructionNotice
          ([0xD83D, 0xDD17] @ js '' Enterprise Integrations - Implementation in Progress'')
      else if activeTab = js ''dashboard'' then Dashboard
      else Dashboard)"

text \<open>\<open>App\<close> holds the selected tab; a click on a sidebar item stores that item's id.\<close>

definition App_init :: jsstring where
  "App_init = js ''dashboard''"

definition setActiveTab :: "menu_item \<Rightarrow> jsstring \<Rightarrow> jsstring" where
  "setActiveTab item activeTab = id' item"

section \<open>Network, templates and effects\<close>

text \<open>
  How a request ends: no response at all, or a response with a status and a body that is
  either JSON text (given parsed) or some other text.
\<close>

datatype body = JsonBody json | TextBody jsstring

datatype http_outcome = NetworkFailure | Response nat body

definition http_ok :: "nat \<Rightarrow> bool" where
  "http_ok st = (200 \<le> st \<and> st < 300)"

definition http_failed :: "http_outcome \<Rightarrow> bool" where
  "http_failed r = (case r of NetworkFailure \<Rightarrow> True | Response st b \<Rightarrow> \<not> http_ok st)"

text \<open>
  \<open>await axios.get(...)\<close> and \<open>await axios.post(...)\<close> with axios' default settings: the
  promise rejects on a network failure and on a status outside 2xx; otherwise
  \<open>response.data\<close> is the parsed body, or the text itself when the body is not JSON.
\<close>

fun axios_settle :: "http_outcome \<Rightarrow> exn + json" where
  "axios_settle NetworkFailure = Inl AxiosError"
| "axios_settle (Response st b) =
     (if http_ok st then Inr (case b of JsonBody j \<Rightarrow> j | TextBody t \<Rightarrow> JStr t)
      else Inl AxiosError)"

text \<open>\<open>await response.json()\<close> on a \<open>fetch\<close> response: rejects when the body is not JSON.\<close>

fun response_json :: "body \<Rightarrow> exn + json" where
  "response_json (JsonBody j) = Inr j"
| "response_json (TextBody t) = Inl SyntaxError"

text \<open>
  A template literal is kept as its pieces: literal text, the ambient
  \<open>process.env.REACT_APP_BACKEND_URL\<close>, and substituted values.
\<close>

datatype piece = Lit jsstring | BACKEND_URL | Sub "json option"

type_synonym template = "piece list"

definition API :: template where
  "API = [BACKEND_URL, Lit (js ''/api'')]"

section \<open>Module state\<close>

record team_member =
  id' :: jsstring
  name :: jsstring
  role :: jsstring
  avatar :: jsstring

record standup_input =
  team_member_id :: jsstring
  yesterday :: jsstring
  today :: jsstring
  blockers :: jsstring
  mood :: jsstring
  confidence_level :: number

record StandupModule_state =
  selectedMember :: jsstring
  input :: standup_input
  output' :: json
  loading :: bool
  voiceRecording :: bool

record retro_input =
  sprint_id :: jsstring
  went_well :: jsstring
  went_poorly :: jsstring
  improvements :: jsstring
  team_mood :: jsstring
  velocity_achieved :: number
  goals_met :: number

record RetroModule_state =
  input :: retro_input
  output' :: json
  loading :: bool
  retroFormat :: jsstring

record blockers_input =
  days_threshold :: number
  include_external_dependencies :: bool
  analyze_code_reviews :: bool

record BlockersModule_state =
  input :: blockers_input
  output' :: json
  loading :: bool
  autoScan :: bool

record ticket_form =
  title :: jsstring
  description :: jsstring
  project_context :: jsstring
  assignee_id :: jsstring
  priority :: jsstring
  labels :: "jsstring list"

record SmartTicketGenerator_state =
  formData :: ticket_form
  output' :: json
  loading :: bool
  activeTab :: jsstring

text \<open>What a handler sends, and what it does besides changing its component's state.\<close>

datatype form_body =
    StandupBody standup_input
  | RetroBody retro_input
  | BlockersBody blockers_input
  | TicketBody ticket_form

datatype request =
    AxiosGet template
  | AxiosPost template form_body
  | FetchPost template "(jsstring \<times> jsstring) list" form_body

datatype blob_part = Value "json option" | JSON_stringify json nat

record blob =
  parts :: "blob_part list"
  blob_type :: "json option"

datatype effect =
    PreventDefault
  | Alert template
  | ConsoleError jsstring exn
  | CreateObjectURL blob
  | CreateElement jsstring
  | SetHref
  | SetDownload jsstring
  | AppendChild
  | Click
  | RevokeObjectURL
  | RemoveChild

text \<open>
  An \<open>async\<close> handler with one \<open>await\<close> on a request is two functions: the part that runs
  up to the request (or to the end, when it returns before it), and the part that runs
  when the request has ended. \<open>run_async\<close> runs both, given how the request ends.
\<close>

definition run_async ::
  "('s \<Rightarrow> 's \<times> effect list \<times> request option) \<Rightarrow>
   (http_outcome \<Rightarrow> 's \<Rightarrow> 's \<times> effect list) \<Rightarrow>
   http_outcome \<Rightarrow> 's \<Rightarrow> 's \<times> effect list \<times> request list" where
  "run_async call settle r s =
     (case call s of
        (s1, es1, None) \<Rightarrow> (s1, es1, [])
      | (s1, es1, Some rq) \<Rightarrow>
          (case settle r s1 of (s2, es2) \<Rightarrow> (s2, es1 @ es2, [rq])))"

section \<open>StandupModule\<close>

text \<open>\<open>teamMembers\<close> is state with no setter: it keeps its initial value.\<close>

definition teamMembers :: "team_member list" where
  "teamMembers =
    [\<lparr>team_member.id' = js ''1'', name = js ''Sarah Johnson'', role = js ''Senior Developer'',
       avatar = js ''SJ''\<rparr>,
     \<lparr>team_member.id' = js ''2'', name = js ''Alex Rivera'', role = js ''Frontend Developer'',
       avatar = js ''AR''\<rparr>,
     \<lparr>team_member.id' = js ''3'', name = js ''Mike Chen'', role = js ''Backend Developer'',
       avatar = js ''MC''\<rparr>,
     \<lparr>team_member.id' = js ''4'', name = js ''Emily Davis'', role = js ''QA Engineer'',
       avatar = js ''ED''\<rparr>]"

definition StandupModule_init :: StandupModule_state where
  "StandupModule_init =
    \<lparr>selectedMember = [],
     StandupModule_state.input =
       \<lparr>team_member_id = [], yesterday = [], today = [], blockers = [],
        mood = js ''neutral'', confidence_level = Finite 5\<rparr>,
     output' = JNull, loading = False, voiceRecording = False\<rparr>"

definition StandupModule_handleSubmit_call ::
  "StandupModule_state \<Rightarrow> StandupModule_state \<times> effect list \<times> request option" where
  "StandupModule_handleSubmit_call s =
     (if team_member_id (StandupModule_state.input s) = [] then
        (s, [PreventDefault, Alert [Lit (js ''Please select a team member'')]], None)
      else
        (s\<lparr>StandupModule_state.loading := True\<rparr>, [PreventDefault],
         Some (AxiosPost (API @ [Lit (js ''/standup'')])
                 (StandupBody (StandupModule_state.input s)))))"

definition StandupModule_handleSubmit_settle ::
  "http_outcome \<Rightarrow> StandupModule_state \<Rightarrow> StandupModule_state \<times> effect list" where
  "StandupModule_handleSubmit_settle r s =
     (case axios_settle r of
        Inr data \<Rightarrow>
          (s\<lparr>StandupModule_state.output' := data, StandupModule_state.loading := False\<rparr>, [])
      | Inl error \<Rightarrow>
          (s\<lparr>StandupModule_state.loading := False\<rparr>,
           [ConsoleError (js ''Error generating standup:'') error]))"

definition StandupModule_handleSubmit ::
  "http_outcome \<Rightarrow> StandupModule_state \<Rightarrow> StandupModule_state \<times> effect list \<times> request list" where
  "StandupModule_handleSubmit =
     run_async StandupModule_handleSubmit_call StandupModule_handleSubmit_settle"

text \<open>\<open>teamMembers[0]?.id || '1'\<close>\<close>

definition first_member_id :: jsstring where
  "first_member_id =
     (case teamMembers of
        [] \<Rightarrow> js ''1''
      | m # ms \<Rightarrow> if team_member.id' m = [] then js ''1'' else team_member.id' m)"

definition StandupModule_loadExample ::
  "StandupModule_state \<Rightarrow> StandupModule_state \<times> effect list" where
  "StandupModule_loadExample s =
     (s\<lparr>StandupModule_state.input :=
          \<lparr>team_member_id = first_member_id,
           yesterday = js ''Yesterday I completed the user authentication module implementation and resolved three critical bugs in the payment processing system. I also conducted code reviews for two pull requests and mentored a junior developer on React best practices. Additionally, I updated the API documentation for the authentication endpoints.'',
           today = js ''Today I'm focusing on integrating the payment gateway with Stripe API, implementing the user dashboard with real-time analytics, and attending the architecture review meeting at 2 PM. I'll also start working on the mobile responsiveness improvements for the checkout flow and plan to finish writing unit tests for the auth module.'',
           blockers = js ''I'm currently blocked waiting for the staging environment credentials from the DevOps team, which is preventing me from testing the payment integration. Also need design approval for the new dashboard layout from the UX team before I can proceed with the frontend implementation.'',
           mood = js ''positive'',
           confidence_level = Finite 7\<rparr>,
        selectedMember := first_member_id\<rparr>, [])"

section \<open>RetroModule\<close>

definition RetroModule_init :: RetroModule_state where
  "RetroModule_init =
    \<lparr>RetroModule_state.input =
       \<lparr>sprint_id = js ''SPRINT-24'', went_well = [], went_poorly = [], improvements = [],
        team_mood = js ''neutral'', velocity_achieved = Finite 0, goals_met = Finite 0\<rparr>,
     output' = JNull, loading = False, retroFormat = js ''traditional''\<rparr>"

definition RetroModule_handleSubmit_call ::
  "RetroModule_state \<Rightarrow> RetroModule_state \<times> effect list \<times> request option" where
  "RetroModule_handleSubmit_call s =
     (s\<lparr>RetroModule_state.loading := True\<rparr>, [PreventDefault],
      Some (AxiosPost (API @ [Lit (js ''/retrospective'')])
              (RetroBody (RetroModule_state.input s))))"

definition RetroModule_handleSubmit_settle ::
  "http_outcome \<Rightarrow> RetroModule_state \<Rightarrow> RetroModule_state \<times> effect list" where
  "RetroModule_handleSubmit_settle r s =
     (case axios_settle r of
        Inr data \<Rightarrow>
          (s\<lparr>RetroModule_state.output' := data, RetroModule_state.loading := False\<rparr>, [])
      | Inl error \<Rightarrow>
          (s\<lparr>RetroModule_state.loading := False\<rparr>,
           [ConsoleError (js ''Error generating retrospective:'') error]))"

definition RetroModule_handleSubmit ::
  "http_outcome \<Rightarrow> RetroModule_state \<Rightarrow> RetroModule_state \<times> effect list \<times> request list" where
  "RetroModule_handleSubmit =
     run_async RetroModule_handleSubmit_call RetroModule_handleSubmit_settle"

definition RetroModule_loadExample ::
  "RetroModule_state \<Rightarrow> RetroModule_state \<times> effect list" where
  "RetroModule_loadExample s =
     (s\<lparr>RetroModule_state.input :=
          \<lparr>sprint_id = js ''SPRINT-24'',
           went_well = js ''Excellent team collaboration on the payment integration feature, with all developers contributing to code reviews and knowledge sharing. The new automated testing pipeline caught 12 bugs before production, significantly improving our code quality. Daily standups were efficient and informative, keeping everyone aligned on progress and blockers. The product owner provided clear and timely feedback on user stories, reducing back-and-forth and rework.'',
           went_poorly = js ''Testing environment was unstable for 3 days due to infrastructure issues, causing delays in QA validation and blocking several user stories. Requirements for the admin dashboard were unclear initially, leading to rework and scope creep. Too many ad-hoc meetings interrupted focused development time, reducing individual productivity. The code review process became a bottleneck with only senior developers able to approve critical changes.'',
           improvements = js ''Establish dedicated focus time blocks (9-11 AM) with no meetings to improve deep work productivity. Implement a more robust testing environment with better monitoring and automatic failover. Create a more structured requirements gathering process with stakeholder sign-off before development begins. Distribute code review responsibilities among more team members to reduce bottlenecks and improve knowledge sharing.'',
           team_mood = js ''positive'',
           velocity_achieved = Finite 28,
           goals_met = Finite 85\<rparr>\<rparr>, [])"

section \<open>BlockersModule\<close>

definition BlockersModule_init :: BlockersModule_state where
  "BlockersModule_init =
    \<lparr>BlockersModule_state.input =
       \<lparr>days_threshold = Finite 3, include_external_dependencies = True,
        analyze_code_reviews = True\<rparr>,
     output' = JNull, loading = False, autoScan = True\<rparr>"

definition BlockersModule_handleSubmit_call ::
  "BlockersModule_state \<Rightarrow> BlockersModule_state \<times> effect list \<times> request option" where
  "BlockersModule_handleSubmit_call s =
     (s\<lparr>BlockersModule_state.loading := True\<rparr>, [PreventDefault],
      Some (AxiosPost (API @ [Lit (js ''/blockers'')])
              (BlockersBody (BlockersModule_state.input s))))"

definition BlockersModule_handleSubmit_settle ::
  "http_outcome \<Rightarrow> BlockersModule_state \<Rightarrow> BlockersModule_state \<times> effect list" where
  "BlockersModule_handleSubmit_settle r s =
     (case axios_settle r of
        Inr data \<Rightarrow>
          (s\<lparr>BlockersModule_state.output' := data, BlockersModule_state.loading := False\<rparr>, [])
      | Inl error \<Rightarrow>
          (s\<lparr>BlockersModule_state.loading := False\<rparr>,
           [ConsoleError (js ''Error generating blocker analysis:'') error]))"

definition BlockersModule_handleSubmit ::
  "http_outcome \<Rightarrow> BlockersModule_state \<Rightarrow> BlockersModule_state \<times> effect list \<times> request list" where
  "BlockersModule_handleSubmit =
     run_async BlockersModule_handleSubmit_call BlockersModule_handleSubmit_settle"

text \<open>
  The Run Analysis button, which is never disabled: \<open>runMockAnalysis\<close> resets the form and
  calls \<open>handleSubmit\<close> with an event whose \<open>preventDefault\<close> does nothing. The request
  carries the \<open>input\<close> of the render the button was clicked in. The call is ended by
  \<open>BlockersModule_handleSubmit_settle\<close>, like any other call of \<open>handleSubmit\<close>.
\<close>

definition BlockersModule_runMockAnalysis_call ::
  "BlockersModule_state \<Rightarrow> BlockersModule_state \<times> effect list \<times> request option" where
  "BlockersModule_runMockAnalysis_call s =
     (s\<lparr>BlockersModule_state.input :=
          \<lparr>days_threshold = Finite 3, include_external_dependencies = True,
           analyze_code_reviews = True\<rparr>,
        BlockersModule_state.loading := True\<rparr>, [],
      Some (AxiosPost (API @ [Lit (js ''/blockers'')])
              (BlockersBody (BlockersModule_state.input s))))"

section \<open>SmartTicketGenerator\<close>

definition SmartTicketGenerator_init :: SmartTicketGenerator_state where
  "SmartTicketGenerator_init =
    \<lparr>formData =
       \<lparr>title = [], description = [], project_context = [], assignee_id = [],
        priority = js ''Medium'', labels = []\<rparr>,
     output' = JNull, loading = False, activeTab = js ''preview''\<rparr>"

text \<open>
  \<open>e.target.value.split(',').map(label => label.trim()).filter(label => label)\<close>, stored
  as the \<open>labels\<close> of \<open>formData\<close>; the other fields are kept.
\<close>

definition handleLabelsChange ::
  "jsstring \<Rightarrow> SmartTicketGenerator_state \<Rightarrow> SmartTicketGenerator_state \<times> effect list" where
  "handleLabelsChange v s =
     (s\<lparr>formData :=
          (formData s)\<lparr>labels := filter (\<lambda>label. label \<noteq> []) (map trim (split 0x2C v))\<rparr>\<rparr>,
      [])"

definition SmartTicketGenerator_handleSubmit_call ::
  "SmartTicketGenerator_state \<Rightarrow> SmartTicketGenerator_state \<times> effect list \<times> request option" where
  "SmartTicketGenerator_handleSubmit_call s =
     (if description (formData s) = [] then
        (s, [PreventDefault, Alert [Lit (js ''Please provide a ticket description'')]], None)
      else
        (s\<lparr>SmartTicketGenerator_state.loading := True\<rparr>, [PreventDefault],
         Some (FetchPost [BACKEND_URL, Lit (js ''/ticket'')]
                 [(js ''Content-Type'', js ''application/json'')]
                 (TicketBody (formData s)))))"

text \<open>The \<open>catch\<close> block of the ticket handler, followed by its \<open>finally\<close>.\<close>

definition ticket_caught ::
  "exn \<Rightarrow> SmartTicketGenerator_state \<Rightarrow> SmartTicketGenerator_state \<times> effect list" where
  "ticket_caught error s =
     (s\<lparr>SmartTicketGenerator_state.loading := False\<rparr>,
      [ConsoleError (js ''Ticket generation error:'') error,
       Alert [Lit (js ''Failed to generate ticket'')]])"

definition SmartTicketGenerator_handleSubmit_settle ::
  "http_outcome \<Rightarrow> SmartTicketGenerator_state \<Rightarrow> SmartTicketGenerator_state \<times> effect list" where
  "SmartTicketGenerator_handleSubmit_settle r s =
     (case r of
        NetworkFailure \<Rightarrow> ticket_caught TypeError s
      | Response st b \<Rightarrow>
          if http_ok st then
            (case response_json b of
               Inl error \<Rightarrow> ticket_caught error s
             | Inr result \<Rightarrow>
                 (s\<lparr>SmartTicketGenerator_state.output' := result,
                    SmartTicketGenerator_state.loading := False\<rparr>, []))
          else
            (case response_json b of
               Inl error \<Rightarrow> ticket_caught error s
             | Inr error \<Rightarrow>
                 (case get_prop error (js ''detail'') of
                    Inl thrown \<Rightarrow> ticket_caught thrown s
                  | Inr detail \<Rightarrow>
                      (s\<lparr>SmartTicketGenerator_state.loading := False\<rparr>,
                       [Alert [Lit (js ''Error: ''),
                               Sub (if truthy detail then detail
                                    else Some (JStr (js ''Failed to generate ticket'')))]]))))"

definition SmartTicketGenerator_handleSubmit ::
  "http_outcome \<Rightarrow> SmartTicketGenerator_state \<Rightarrow>
   SmartTicketGenerator_state \<times> effect list \<times> request list" where
  "SmartTicketGenerator_handleSubmit =
     run_async SmartTicketGenerator_handleSubmit_call SmartTicketGenerator_handleSubmit_settle"

definition SmartTicketGenerator_loadExample ::
  "SmartTicketGenerator_state \<Rightarrow> SmartTicketGenerator_state \<times> effect list" where
  "SmartTicketGenerator_loadExample s =
     (s\<lparr>formData :=
          \<lparr>title = js ''Implement User Dashboard Analytics'',
           description = js ''Create a comprehensive analytics dashboard for users to track their productivity metrics, view historical data, and generate custom reports. The dashboard should include charts, graphs, and exportable reports.'',
           project_context = js ''Part of the Q2 user engagement initiative to increase platform adoption and user retention through better insights.'',
           assignee_id = [],
           priority = js ''High'',
           labels = [js ''frontend'', js ''analytics'', js ''user-experience'']\<rparr>\<rparr>, [])"

section \<open>ExportButton\<close>

text \<open>
  \<open>handleExport\<close> of a button with props \<open>data\<close>, \<open>filename\<close> and \<open>format\<close> (\<open>'json'\<close> when
  the prop is left out). The component has no state, so the two parts of the handler
  only give effects. Every exception is caught and logged.
\<close>

definition handleExport_call ::
  "json \<Rightarrow> jsstring \<Rightarrow> jsstring \<Rightarrow> effect list \<times> request option" where
  "handleExport_call data filename format =
     (case get_prop data (js ''id'') of
        Inl error \<Rightarrow> ([ConsoleError (js ''Export failed:'') error], None)
      | Inr data_id \<Rightarrow>
          if truthy data_id \<and> format \<noteq> js ''json'' then
            ([], Some (AxiosGet
                         (API @ [Lit (js ''/export/''),
                                 Sub (case split 0x2D filename of
                                        [] \<Rightarrow> None
                                      | module' # rest \<Rightarrow> Some (JStr module')),
                                 Lit (js ''/''), Sub data_id,
                                 Lit (js ''?format=''), Lit format])))
          else
            ([CreateObjectURL
                \<lparr>parts = [JSON_stringify data 2],
                 blob_type = Some (JStr (js ''application/json''))\<rparr>,
              CreateElement (js ''a''), SetHref, SetDownload (filename @ js ''.json''),
              AppendChild, Click, RevokeObjectURL, RemoveChild], None))"

definition handleExport_settle ::
  "http_outcome \<Rightarrow> jsstring \<Rightarrow> jsstring \<Rightarrow> effect list" where
  "handleExport_settle r filename format =
     (case axios_settle r of
        Inl error \<Rightarrow> [ConsoleError (js ''Export failed:'') error]
      | Inr response_data \<Rightarrow>
          (case get_prop response_data (js ''content'') of
             Inl error \<Rightarrow> [ConsoleError (js ''Export failed:'') error]
           | Inr content \<Rightarrow>
               (case get_prop response_data (js ''content_type'') of
                  Inl error \<Rightarrow> [ConsoleError (js ''Export failed:'') error]
                | Inr content_type \<Rightarrow>
                    [CreateObjectURL
                       \<lparr>parts = [Value content],
                        blob_type = (if truthy content_type then content_type
                                     else Some (JStr (js ''text/plain'')))\<rparr>,
                     CreateElement (js ''a''), SetHref,
                     SetDownload
                       (filename @ js ''.'' @
                        (if format = js ''markdown'' then js ''md'' else format)),
                     AppendChild, Click, RevokeObjectURL, RemoveChild])))"

definition handleExport ::
  "http_outcome \<Rightarrow> json \<Rightarrow> jsstring \<Rightarrow> jsstring \<Rightarrow> effect list \<times> request list" where
  "handleExport r data filename format =
     (case handleExport_call data filename format of
        (es1, None) \<Rightarrow> (es1, [])
      | (es1, Some rq) \<Rightarrow> (es1 @ handleExport_settle r filename format, [rq]))"

text \<open>What an observer of the effects sees: a logged error, a started download.\<close>

fun is_ConsoleError :: "effect \<Rightarrow> bool" where
  "is_ConsoleError (ConsoleError m e) = True"
| "is_ConsoleError x = False"

definition downloads :: "effect list \<Rightarrow> jsstring list" where
  "downloads es =
     (if Click \<in> set es then concat (map (\<lambda>e. case e of SetDownload n \<Rightarrow> [n] | _ \<Rightarrow> []) es)
      else [])"

section \<open>Submitting the forms\<close>

text \<open>
  Each \<open>handleSubmit\<close> is the \<open>onSubmit\<close> of its module's form, and no form has
  \<open>noValidate\<close>. So when a form is submitted the browser first checks the constraints of
  its controls: if a control is invalid, the submit event is not fired (the handler does
  not run) and the browser reports the first invalid control, in document order, to
  the user at that control. The controls show the component's state. A \<open>required\<close>
  control is invalid when its value is empty; a number input is invalid when it shows a
  number outside its \<open>min\<close> and \<open>max\<close> or off its step of 1 (\<open>NaN\<close> and the infinities
  show as an empty field, which is valid when not required). Range inputs and selects
  without \<open>required\<close> are always valid. The submit buttons are disabled while \<open>loading\<close>
  is true; the functions below say what a submission does once it is started.
\<close>

datatype control =
    Standup_selectedMember
  | Standup_yesterday
  | Standup_today
  | Retro_sprint_id
  | Retro_went_well
  | Retro_went_poorly
  | Retro_improvements
  | Retro_velocity_achieved
  | Ticket_description

datatype 'a submission = Blocked control | Dispatched 'a

fun first_invalid :: "(control \<times> bool) list \<Rightarrow> control option" where
  "first_invalid [] = None"
| "first_invalid ((c, invalid) # cs) = (if invalid then Some c else first_invalid cs)"


text \<open>
  The standup form: the member select (which shows \<open>selectedMember\<close>) and the yesterday
  and today textareas are \<open>required\<close>.
\<close>

definition StandupModule_submit ::
  "http_outcome \<Rightarrow> StandupModule_state \<Rightarrow>
   (StandupModule_state \<times> effect list \<times> request list) submission" where
  "StandupModule_submit r s =
     (case first_invalid
             [(Standup_selectedMember, selectedMember s = []),
              (Standup_yesterday, yesterday (StandupModule_state.input s) = []),
              (Standup_today, today (StandupModule_state.input s) = [])] of
        Some c \<Rightarrow> Blocked c
      | None \<Rightarrow> Dispatched (StandupModule_handleSubmit r s))"




section \<open>Properties\<close>

lemma unat_of_char_16: "unat (of_char a :: code_unit) = of_char a"
proof -
  have "(of_char a :: code_unit) = of_nat (of_char a)"
    by (simp only: of_nat_of_char)
  moreover have "(of_char a :: nat) < 2 ^ LENGTH(16)"
    by (rule less_trans [OF nat_of_char_less_256]) simp
  ultimately show ?thesis by (simp only: of_nat_inverse)
qed

lemma of_char_16_inj: "(of_char a :: code_unit) = of_char b \<longleftrightarrow> a = b"
proof
  assume "(of_char a :: code_unit) = of_char b"
  then have "unat (of_char a :: code_unit) = unat (of_char b :: code_unit)" by simp
  then have "(of_char a :: nat) = of_char b" by (simp only: unat_of_char_16)
  then show "a = b" by simp
qed simp

lemma js_eq_iff [simp]: "js a = js b \<longleftrightarrow> a = b"
proof -
  have "inj (of_char :: char \<Rightarrow> code_unit)"
    by (rule injI) (simp only: of_char_16_inj)
  then show ?thesis unfolding js_def by (rule inj_map_eq_map)
qed

lemma js_Nil [simp]: "js s = [] \<longleftrightarrow> s = []" "[] = js s \<longleftrightarrow> s = []"
  by (simp_all add: js_def)

lemma js_append [simp]: "js a @ js b = js (a @ b)"
  by (simp add: js_def)

lemmas submit_defs =
  run_async_def
  StandupModule_handleSubmit_def StandupModule_handleSubmit_call_def
  StandupModule_handleSubmit_settle_def
  RetroModule_handleSubmit_def RetroModule_handleSubmit_call_def
  RetroModule_handleSubmit_settle_def
  BlockersModule_handleSubmit_def BlockersModule_handleSubmit_call_def
  BlockersModule_handleSubmit_settle_def
  SmartTicketGenerator_handleSubmit_def SmartTicketGenerator_handleSubmit_call_def
  SmartTicketGenerator_handleSubmit_settle_def ticket_caught_def

subsection \<open>Validation before the request\<close>

text \<open>
  The guards inside the handlers: \<open>StandupModule\<close>'s returns before the request when
  \<open>team_member_id\<close> is empty, \<open>SmartTicketGenerator\<close>'s when \<open>description\<close> is empty. Each
  shows an alert and leaves the state as it was.
\<close>

lemma handleSubmit_guards:
  "team_member_id (StandupModule_state.input s) = [] \<Longrightarrow>
     StandupModule_handleSubmit r s =
       (s, [PreventDefault, Alert [Lit (js ''Please select a team member'')]], [])"
  "description (formData t) = [] \<Longrightarrow>
     SmartTicketGenerator_handleSubmit r t =
       (t, [PreventDefault, Alert [Lit (js ''Please provide a ticket description'')]], [])"
  by (simp_all add: submit_defs)



text \<open>
  The handler's own alert is what a submit surfaces when the select shows a member and
  both textareas are filled but \<open>team_member_id\<close> is empty.
\<close>

lemma standup_alert_example:
  "StandupModule_submit NetworkFailure
     ((fst (StandupModule_loadExample StandupModule_init))
        \<lparr>StandupModule_state.input :=
           (StandupModule_state.input (fst (StandupModule_loadExample StandupModule_init)))
             \<lparr>team_member_id := []\<rparr>\<rparr>) =
   Dispatched
     ((fst (StandupModule_loadExample StandupModule_init))
        \<lparr>StandupModule_state.input :=
           (StandupModule_state.input (fst (StandupModule_loadExample StandupModule_init)))
             \<lparr>team_member_id := []\<rparr>\<rparr>,
      [PreventDefault, Alert [Lit (js ''Please select a team member'')]], [])"
  by (simp add: StandupModule_submit_def StandupModule_loadExample_def first_member_id_def
      teamMembers_def handleSubmit_guards)

subsection \<open>Export without an identifier\<close>

text \<open>
  C2 as stated does not hold: the \<open>jira\<close> button on a result without \<open>id\<close> takes the
  \<open>else\<close> branch of \<open>handleExport\<close>. No request is issued, but nothing is thrown or logged
  and the file \<open>standup-summary.json\<close> is downloaded.
\<close>

theorem export_jira_without_id_counterexample:
  "get_prop (JObj [(js ''summary'', JStr (js ''ok''))]) (js ''id'') = Inr None \<and>
   js ''jira'' \<noteq> js ''json'' \<and>
   snd (handleExport NetworkFailure (JObj [(js ''summary'', JStr (js ''ok''))])
      (js ''standup-summary'') (js ''jira'')) = [] \<and>
   downloads (fst (handleExport NetworkFailure (JObj [(js ''summary'', JStr (js ''ok''))])
      (js ''standup-summary'') (js ''jira''))) = [js ''standup-summary.json''] \<and>
   filter is_ConsoleError
     (fst (handleExport NetworkFailure (JObj [(js ''summary'', JStr (js ''ok''))])
        (js ''standup-summary'') (js ''jira''))) = []"
  by (simp add: handleExport_def handleExport_call_def downloads_def)

text \<open>
  C2, amended: for every format, an export of a result whose \<open>id\<close> is absent (or falsy)
  issues no request and raises no error; it falls back to the json export, which
  downloads \<open>JSON.stringify(data, null, 2)\<close> as \<open>application/json\<close> under the name
  \<open>filename\<close> followed by \<open>.json\<close>, and releases the object URL after the click.
\<close>

theorem export_without_id_downloads_json:
  "get_prop data (js ''id'') = Inr data_id \<Longrightarrow> \<not> truthy data_id \<Longrightarrow>
     handleExport r data filename format =
       ([CreateObjectURL
           \<lparr>parts = [JSON_stringify data 2],
            blob_type = Some (JStr (js ''application/json''))\<rparr>,
         CreateElement (js ''a''), SetHref, SetDownload (filename @ js ''.json''),
         AppendChild, Click, RevokeObjectURL, RemoveChild], [])"
  by (simp add: handleExport_def handleExport_call_def)

text \<open>The retrospective's \<open>confluence\<close> button on a result without \<open>id\<close>.\<close>

theorem export_without_id_downloads_json_witness:
  "get_prop (JObj [(js ''executive_summary'', JStr (js ''fine''))]) (js ''id'') = Inr None \<and>
   \<not> truthy None \<and>
   handleExport (Response 200 (JsonBody JNull))
       (JObj [(js ''executive_summary'', JStr (js ''fine''))])
       (js ''retrospective'') (js ''confluence'') =
     ([CreateObjectURL
         \<lparr>parts = [JSON_stringify (JObj [(js ''executive_summary'', JStr (js ''fine''))]) 2],
          blob_type = Some (JStr (js ''application/json''))\<rparr>,
       CreateElement (js ''a''), SetHref, SetDownload (js ''retrospective.json''),
       AppendChild, Click, RevokeObjectURL, RemoveChild], [])"
proof -
  have a: "get_prop (JObj [(js ''executive_summary'', JStr (js ''fine''))]) (js ''id'') = Inr None"
    by simp
  have b: "\<not> truthy None" by simp
  from export_without_id_downloads_json [OF a b] a b show ?thesis by simp
qed

subsection \<open>The result after a submission\<close>

text \<open>
  C3: when the request of a submit fails (no response, or a status outside 2xx), the
  module's stored result after the call is the one it had before the call. This holds
  for the four modules that submit: Standup, Retrospective, Blockers and Ticket.
\<close>

theorem failed_submit_keeps_output:
  "http_failed r \<Longrightarrow>
     StandupModule_state.output' (fst (StandupModule_handleSubmit r sa)) =
       StandupModule_state.output' sa \<and>
     RetroModule_state.output' (fst (RetroModule_handleSubmit r sb)) =
       RetroModule_state.output' sb \<and>
     BlockersModule_state.output' (fst (BlockersModule_handleSubmit r sc)) =
       BlockersModule_state.output' sc \<and>
     SmartTicketGenerator_state.output' (fst (SmartTicketGenerator_handleSubmit r sd)) =
       SmartTicketGenerator_state.output' sd"
  by (cases r) (simp_all add: submit_defs http_failed_def split: sum.splits)

text \<open>A 500 response to forms that pass the guards, with an earlier result on display.\<close>

theorem failed_submit_keeps_output_witness:
  "http_failed (Response 500 (JsonBody (JObj [(js ''detail'', JStr (js ''boom''))]))) \<and>
   StandupModule_state.output'
     (fst (StandupModule_handleSubmit
        (Response 500 (JsonBody (JObj [(js ''detail'', JStr (js ''boom''))])))
        ((fst (StandupModule_loadExample StandupModule_init))
           \<lparr>StandupModule_state.output' := JStr (js ''previous'')\<rparr>))) =
     JStr (js ''previous'') \<and>
   RetroModule_state.output'
     (fst (RetroModule_handleSubmit
        (Response 500 (JsonBody (JObj [(js ''detail'', JStr (js ''boom''))])))
        (RetroModule_init
           \<lparr>RetroModule_state.output' := JStr (js ''previous'')\<rparr>))) =
     JStr (js ''previous'') \<and>
   BlockersModule_state.output'
     (fst (BlockersModule_handleSubmit
        (Response 500 (JsonBody (JObj [(js ''detail'', JStr (js ''boom''))])))
        (BlockersModule_init
           \<lparr>BlockersModule_state.output' := JStr (js ''previous'')\<rparr>))) =
     JStr (js ''previous'') \<and>
   SmartTicketGenerator_state.output'
     (fst (SmartTicketGenerator_handleSubmit
        (Response 500 (JsonBody (JObj [(js ''detail'', JStr (js ''boom''))])))
        ((fst (SmartTicketGenerator_loadExample SmartTicketGenerator_init))
           \<lparr>SmartTicketGenerator_state.output' := JStr (js ''previous'')\<rparr>))) =
     JStr (js ''previous'')"
proof -
  have h: "http_failed (Response 500 (JsonBody (JObj [(js ''detail'', JStr (js ''boom''))])))"
    by (simp add: http_failed_def http_ok_def)
  from failed_submit_keeps_output [OF h, where sa =
        "((fst (StandupModule_loadExample StandupModule_init))
           \<lparr>StandupModule_state.output' := JStr (js ''previous'')\<rparr>)"
      and sb =
        "(RetroModule_init
           \<lparr>RetroModule_state.output' := JStr (js ''previous'')\<rparr>)"
      and sc =
        "(BlockersModule_init
           \<lparr>BlockersModule_state.output' := JStr (js ''previous'')\<rparr>)"
      and sd =
        "((fst (SmartTicketGenerator_loadExample SmartTicketGenerator_init))
           \<lparr>SmartTicketGenerator_state.output' := JStr (js ''previous'')\<rparr>)"]
  show ?thesis using h by simp
qed

text \<open>
  C4: when a submit's request succeeds (a 2xx response whose body parses), the module's
  stored result after the call is exactly the parsed body, whatever was stored before.
  For Standup and Ticket the form has to pass the handler's guard for the request to be
  issued.
\<close>

theorem successful_submit_replaces_output:
  "http_ok st \<Longrightarrow>
     (team_member_id (StandupModule_state.input sa) \<noteq> [] \<longrightarrow>
        StandupModule_state.output'
          (fst (StandupModule_handleSubmit (Response st (JsonBody j)) sa)) = j) \<and>
     RetroModule_state.output'
       (fst (RetroModule_handleSubmit (Response st (JsonBody j)) sb)) = j \<and>
     BlockersModule_state.output'
       (fst (BlockersModule_handleSubmit (Response st (JsonBody j)) sc)) = j \<and>
     (description (formData sd) \<noteq> [] \<longrightarrow>
        SmartTicketGenerator_state.output'
          (fst (SmartTicketGenerator_handleSubmit (Response st (JsonBody j)) sd)) = j)"
  by (simp add: submit_defs)

lemma example_forms_pass_guards:
  "team_member_id (StandupModule_state.input
     ((fst (StandupModule_loadExample StandupModule_init))
        \<lparr>StandupModule_state.output' := JStr (js ''previous'')\<rparr>)) \<noteq> []"
  "description (formData
     ((fst (SmartTicketGenerator_loadExample SmartTicketGenerator_init))
        \<lparr>SmartTicketGenerator_state.output' := JStr (js ''previous'')\<rparr>)) \<noteq> []"
  by (simp_all add: StandupModule_loadExample_def SmartTicketGenerator_loadExample_def
      first_member_id_def teamMembers_def)

text \<open>A 200 response to the example forms, with an earlier result on display.\<close>

theorem successful_submit_replaces_output_witness:
  "http_ok 200 \<and>
   team_member_id (StandupModule_state.input
     ((fst (StandupModule_loadExample StandupModule_init))
        \<lparr>StandupModule_state.output' := JStr (js ''previous'')\<rparr>)) \<noteq> [] \<and>
   StandupModule_state.output'
     (fst (StandupModule_handleSubmit
        (Response 200 (JsonBody
           (JObj [(js ''id'', JStr (js ''r1'')), (js ''formatted_output'', JStr (js ''text''))])))
        ((fst (StandupModule_loadExample StandupModule_init))
           \<lparr>StandupModule_state.output' := JStr (js ''previous'')\<rparr>))) =
     (JObj [(js ''id'', JStr (js ''r1'')), (js ''formatted_output'', JStr (js ''text''))]) \<and>
   RetroModule_state.output'
     (fst (RetroModule_handleSubmit
        (Response 200 (JsonBody
           (JObj [(js ''id'', JStr (js ''r1'')), (js ''formatted_output'', JStr (js ''text''))])))
        (RetroModule_init
           \<lparr>RetroModule_state.output' := JStr (js ''previous'')\<rparr>))) =
     (JObj [(js ''id'', JStr (js ''r1'')), (js ''formatted_output'', JStr (js ''text''))]) \<and>
   BlockersModule_state.output'
     (fst (BlockersModule_handleSubmit
        (Response 200 (JsonBody
           (JObj [(js ''id'', JStr (js ''r1'')), (js ''formatted_output'', JStr (js ''text''))])))
        (BlockersModule_init
           \<lparr>BlockersModule_state.output' := JStr (js ''previous'')\<rparr>))) =
     (JObj [(js ''id'', JStr (js ''r1'')), (js ''formatted_output'', JStr (js ''text''))]) \<and>
   description (formData
     ((fst (SmartTicketGenerator_loadExample SmartTicketGenerator_init))
        \<lparr>SmartTicketGenerator_state.output' := JStr (js ''previous'')\<rparr>)) \<noteq> [] \<and>
   SmartTicketGenerator_state.output'
     (fst (SmartTicketGenerator_handleSubmit
        (Response 200 (JsonBody
           (JObj [(js ''id'', JStr (js ''r1'')), (js ''formatted_output'', JStr (js ''text''))])))
        ((fst (SmartTicketGenerator_loadExample SmartTicketGenerator_init))
           \<lparr>SmartTicketGenerator_state.output' := JStr (js ''previous'')\<rparr>))) =
     (JObj [(js ''id'', JStr (js ''r1'')), (js ''formatted_output'', JStr (js ''text''))])"
proof -
  have h: "http_ok 200" by (simp add: http_ok_def)
  from successful_submit_replaces_output [OF h, where sa =
        "((fst (StandupModule_loadExample StandupModule_init))
           \<lparr>StandupModule_state.output' := JStr (js ''previous'')\<rparr>)"
      and sb =
        "(RetroModule_init
           \<lparr>RetroModule_state.output' := JStr (js ''previous'')\<rparr>)"
      and sc =
        "(BlockersModule_init
           \<lparr>BlockersModule_state.output' := JStr (js ''previous'')\<rparr>)"
      and sd =
        "((fst (SmartTicketGenerator_loadExample SmartTicketGenerator_init))
           \<lparr>SmartTicketGenerator_state.output' := JStr (js ''previous'')\<rparr>)"
      and j =
        "(JObj [(js ''id'', JStr (js ''r1'')), (js ''formatted_output'', JStr (js ''text''))])"]
  show ?thesis using h example_forms_pass_guards by simp
qed

subsection \<open>The loading flag\<close>

text \<open>
  One call on its own, in each of the four submitting modules: whenever the handler issues
  its request the loading flag is true at that point (it was set before the request), and
  when the request has ended, however it ended, the handler leaves the flag false.
\<close>

lemma loading_true_during_request:
  "(snd (snd (StandupModule_handleSubmit_call sa)) \<noteq> None \<longrightarrow>
      StandupModule_state.loading (fst (StandupModule_handleSubmit_call sa))) \<and>
   \<not> StandupModule_state.loading (fst (StandupModule_handleSubmit_settle r sa')) \<and>
   (snd (snd (RetroModule_handleSubmit_call sb)) \<noteq> None \<longrightarrow>
      RetroModule_state.loading (fst (RetroModule_handleSubmit_call sb))) \<and>
   \<not> RetroModule_state.loading (fst (RetroModule_handleSubmit_settle r sb')) \<and>
   (snd (snd (BlockersModule_handleSubmit_call sc)) \<noteq> None \<longrightarrow>
      BlockersModule_state.loading (fst (BlockersModule_handleSubmit_call sc))) \<and>
   \<not> BlockersModule_state.loading (fst (BlockersModule_handleSubmit_settle r sc')) \<and>
   (snd (snd (SmartTicketGenerator_handleSubmit_call sd)) \<noteq> None \<longrightarrow>
      SmartTicketGenerator_state.loading (fst (SmartTicketGenerator_handleSubmit_call sd))) \<and>
   \<not> SmartTicketGenerator_state.loading (fst (SmartTicketGenerator_handleSubmit_settle r sd'))"
  by (cases r) (simp_all add: submit_defs split: sum.splits)

text \<open>
  The example forms issue their requests with the flag true; a 500 response to each
  pending call turns it off again.
\<close>

lemma loading_true_during_request_example:
  "snd (snd (StandupModule_handleSubmit_call
     ((fst (StandupModule_loadExample StandupModule_init))
        \<lparr>StandupModule_state.output' := JStr (js ''previous'')\<rparr>))) \<noteq> None \<and>
   StandupModule_state.loading (fst (StandupModule_handleSubmit_call
     ((fst (StandupModule_loadExample StandupModule_init))
        \<lparr>StandupModule_state.output' := JStr (js ''previous'')\<rparr>))) \<and>
   \<not> StandupModule_state.loading (fst (StandupModule_handleSubmit_settle
     (Response 500 (JsonBody (JObj [(js ''detail'', JStr (js ''boom''))])))
     (fst (StandupModule_handleSubmit_call
        ((fst (StandupModule_loadExample StandupModule_init))
           \<lparr>StandupModule_state.output' := JStr (js ''previous'')\<rparr>))))) \<and>
   snd (snd (RetroModule_handleSubmit_call
     (RetroModule_init
        \<lparr>RetroModule_state.output' := JStr (js ''previous'')\<rparr>))) \<noteq> None \<and>
   RetroModule_state.loading (fst (RetroModule_handleSubmit_call
     (RetroModule_init
        \<lparr>RetroModule_state.output' := JStr (js ''previous'')\<rparr>))) \<and>
   \<not> RetroModule_state.loading (fst (RetroModule_handleSubmit_settle
     (Response 500 (JsonBody (JObj [(js ''detail'', JStr (js ''boom''))])))
     (fst (RetroModule_handleSubmit_call
        (RetroModule_init
           \<lparr>RetroModule_state.output' := JStr (js ''previous'')\<rparr>))))) \<and>
   snd (snd (BlockersModule_handleSubmit_call
     (BlockersModule_init
        \<lparr>BlockersModule_state.output' := JStr (js ''previous'')\<rparr>))) \<noteq> None \<and>
   BlockersModule_state.loading (fst (BlockersModule_handleSubmit_call
     (BlockersModule_init
        \<lparr>BlockersModule_state.output' := JStr (js ''previous'')\<rparr>))) \<and>
   \<not> BlockersModule_state.loading (fst (BlockersModule_handleSubmit_settle
     (Response 500 (JsonBody (JObj [(js ''detail'', JStr (js ''boom''))])))
     (fst (BlockersModule_handleSubmit_call
        (BlockersModule_init
           \<lparr>BlockersModule_state.output' := JStr (js ''previous'')\<rparr>))))) \<and>
   snd (snd (SmartTicketGenerator_handleSubmit_call
     ((fst (SmartTicketGenerator_loadExample SmartTicketGenerator_init))
        \<lparr>SmartTicketGenerator_state.output' := JStr (js ''previous'')\<rparr>))) \<noteq> None \<and>
   SmartTicketGenerator_state.loading (fst (SmartTicketGenerator_handleSubmit_call
     ((fst (SmartTicketGenerator_loadExample SmartTicketGenerator_init))
        \<lparr>SmartTicketGenerator_state.output' := JStr (js ''previous'')\<rparr>))) \<and>
   \<not> SmartTicketGenerator_state.loading (fst (SmartTicketGenerator_handleSubmit_settle
     (Response 500 (JsonBody (JObj [(js ''detail'', JStr (js ''boom''))])))
     (fst (SmartTicketGenerator_handleSubmit_call
        ((fst (SmartTicketGenerator_loadExample SmartTicketGenerator_init))
           \<lparr>SmartTicketGenerator_state.output' := JStr (js ''previous'')\<rparr>)))))"
proof -
  have issued:
    "snd (snd (StandupModule_handleSubmit_call
      ((fst (StandupModule_loadExample StandupModule_init))
         \<lparr>StandupModule_state.output' := JStr (js ''previous'')\<rparr>))) \<noteq> None"
    "snd (snd (RetroModule_handleSubmit_call
      (RetroModule_init
         \<lparr>RetroModule_state.output' := JStr (js ''previous'')\<rparr>))) \<noteq> None"
    "snd (snd (BlockersModule_handleSubmit_call
      (BlockersModule_init
         \<lparr>BlockersModule_state.output' := JStr (js ''previous'')\<rparr>))) \<noteq> None"
    "snd (snd (SmartTicketGenerator_handleSubmit_call
      ((fst (SmartTicketGenerator_loadExample SmartTicketGenerator_init))
         \<lparr>SmartTicketGenerator_state.output' := JStr (js ''previous'')\<rparr>))) \<noteq> None"
    using example_forms_pass_guards
    by (simp_all add: StandupModule_handleSubmit_call_def RetroModule_handleSubmit_call_def
        BlockersModule_handleSubmit_call_def SmartTicketGenerator_handleSubmit_call_def)
  from loading_true_during_request [where sa =
        "((fst (StandupModule_loadExample StandupModule_init))
           \<lparr>StandupModule_state.output' := JStr (js ''previous'')\<rparr>)"
      and sb =
        "(RetroModule_init
           \<lparr>RetroModule_state.output' := JStr (js ''previous'')\<rparr>)"
      and sc =
        "(BlockersModule_init
           \<lparr>BlockersModule_state.output' := JStr (js ''previous'')\<rparr>)"
      and sd =
        "((fst (SmartTicketGenerator_loadExample SmartTicketGenerator_init))
           \<lparr>SmartTicketGenerator_state.output' := JStr (js ''previous'')\<rparr>)"
      and r =
        "(Response 500 (JsonBody (JObj [(js ''detail'', JStr (js ''boom''))])))"
      and sa' =
        "fst (StandupModule_handleSubmit_call
          ((fst (StandupModule_loadExample StandupModule_init))
             \<lparr>StandupModule_state.output' := JStr (js ''previous'')\<rparr>))"
      and sb' =
        "fst (RetroModule_handleSubmit_call
          (RetroModule_init
             \<lparr>RetroModule_state.output' := JStr (js ''previous'')\<rparr>))"
      and sc' =
        "fst (BlockersModule_handleSubmit_call
          (BlockersModule_init
             \<lparr>BlockersModule_state.output' := JStr (js ''previous'')\<rparr>))"
      and sd' =
        "fst (SmartTicketGenerator_handleSubmit_call
          ((fst (SmartTicketGenerator_loadExample SmartTicketGenerator_init))
             \<lparr>SmartTicketGenerator_state.output' := JStr (js ''previous'')\<rparr>))"]
  show ?thesis using issued by simp
qed

text \<open>
  C8 says that the flag is true exactly for the duration of every call that issues a
  request. The submit buttons of all four forms are disabled while the flag is true, so
  no second call can start from a form during a call. The Run Analysis button of the
  Blockers module is not disabled: clicked twice before the first response, it issues two
  requests, and when the first call ends the flag is false although the second call is
  still waiting for its response.
\<close>

theorem overlapping_run_analysis_clears_loading:
  "snd (snd (BlockersModule_runMockAnalysis_call BlockersModule_init)) =
     Some (AxiosPost (API @ [Lit (js ''/blockers'')])
             (BlockersBody (BlockersModule_state.input BlockersModule_init))) \<and>
   snd (snd (BlockersModule_runMockAnalysis_call
      (fst (BlockersModule_runMockAnalysis_call BlockersModule_init)))) =
     Some (AxiosPost (API @ [Lit (js ''/blockers'')])
             (BlockersBody (BlockersModule_state.input BlockersModule_init))) \<and>
   BlockersModule_state.loading
     (fst (BlockersModule_runMockAnalysis_call
        (fst (BlockersModule_runMockAnalysis_call BlockersModule_init)))) \<and>
   \<not> BlockersModule_state.loading
     (fst (BlockersModule_handleSubmit_settle (Response 200 (JsonBody (JObj [])))
        (fst (BlockersModule_runMockAnalysis_call
           (fst (BlockersModule_runMockAnalysis_call BlockersModule_init))))))"
  by (simp add: BlockersModule_runMockAnalysis_call_def BlockersModule_handleSubmit_settle_def
      BlockersModule_init_def http_ok_def)

subsection \<open>Load example\<close>

text \<open>
  C7: "Load example" of the Standup, Retrospective and Ticket modules is deterministic and
  pure. Calling it a second time changes nothing, the form it leaves does not depend on
  the state it was called in (the form is overwritten wholesale with a fixed value), and
  it has no effect besides the state change: no request, no alert, no log.
\<close>

theorem loadExample_fixed_and_pure:
  "StandupModule_loadExample (fst (StandupModule_loadExample sa)) =
     StandupModule_loadExample sa \<and>
   StandupModule_state.input (fst (StandupModule_loadExample sa)) =
     StandupModule_state.input (fst (StandupModule_loadExample sa')) \<and>
   snd (StandupModule_loadExample sa) = [] \<and>
   RetroModule_loadExample (fst (RetroModule_loadExample sb)) = RetroModule_loadExample sb \<and>
   RetroModule_state.input (fst (RetroModule_loadExample sb)) =
     RetroModule_state.input (fst (RetroModule_loadExample sb')) \<and>
   snd (RetroModule_loadExample sb) = [] \<and>
   SmartTicketGenerator_loadExample (fst (SmartTicketGenerator_loadExample sd)) =
     SmartTicketGenerator_loadExample sd \<and>
   formData (fst (SmartTicketGenerator_loadExample sd)) =
     formData (fst (SmartTicketGenerator_loadExample sd')) \<and>
   snd (SmartTicketGenerator_loadExample sd) = []"
  by (simp add: StandupModule_loadExample_def RetroModule_loadExample_def
      SmartTicketGenerator_loadExample_def)

subsection \<open>The view router\<close>

text \<open>
  C9: \<open>renderActiveModule\<close> is a function of the selected tab alone. The application starts
  on the Dashboard, and for each of the eight sidebar items, in the sidebar's order,
  selecting the item renders exactly the component listed: the Dashboard, Standup,
  Ticket, Retrospective and Blockers modules for their tabs and a fixed "Implementation in
  Progress" notice for sprint, insights and integrations.
\<close>

theorem renderActiveModule_total_mapping:
  "renderActiveModule App_init = Dashboard \<and>
   map (\<lambda>item. (menu_item.id' item, renderActiveModule (setActiveTab item tab)))
     menuItems =
     [(js ''dashboard'', Dashboard),
      (js ''standup'', StandupModule),
      (js ''sprint'',
        ConstructionNotice
          ([0x26A1] @ js '' Advanced Sprint Planner - Implementation in Progress'')),
      (js ''ticket'', SmartTicketGenerator),
      (js ''retro'', RetroModule),
      (js ''blockers'', BlockersModule),
      (js ''insights'',
        ConstructionNotice
          ([0xD83E, 0xDDE0] @ js '' AI Insights Dashboard - Implementation in Progress'')),
      (js ''integrations'',
        ConstructionNotice
          ([0xD83D, 0xDD17] @ js '' Enterprise Integrations - Implementation in Progress''))]"
  by (simp add: menuItems_def renderActiveModule_def setActiveTab_def App_init_def)

subsection \<open>The labels of the ticket form\<close>

lemma last_dropWhile:
  assumes "dropWhile P xs \<noteq> []"
  shows "last (dropWhile P xs) = last xs"
proof -
  have "last xs = last (takeWhile P xs @ dropWhile P xs)" by simp
  also have "\<dots> = last (dropWhile P xs)" using assms by (rule last_appendR)
  finally show ?thesis by simp
qed

lemma trim_ends:
  assumes "trim s \<noteq> []"
  shows "\<not> is_whitespace (hd (trim s))" and "\<not> is_whitespace (last (trim s))"
proof -
  define outer where "outer = dropWhile is_whitespace s"
  define inner where "inner = dropWhile is_whitespace (rev outer)"
  have t: "trim s = rev inner" by (simp add: trim_def outer_def inner_def)
  with assms have inner_ne: "inner \<noteq> []" by simp
  then have "rev outer \<noteq> []" by (auto simp: inner_def)
  then have outer_ne: "outer \<noteq> []" by simp
  have "last (trim s) = hd inner" using inner_ne by (simp add: t last_rev)
  moreover have "\<not> is_whitespace (hd inner)"
    using inner_ne unfolding inner_def by (rule hd_dropWhile)
  ultimately show "\<not> is_whitespace (last (trim s))" by simp
  have "hd (trim s) = last inner" using inner_ne by (simp add: t hd_rev)
  also have "\<dots> = last (rev outer)" using inner_ne unfolding inner_def by (rule last_dropWhile)
  also have "\<dots> = hd outer" using outer_ne by (simp add: last_rev)
  finally have "hd (trim s) = hd outer" .
  moreover have "\<not> is_whitespace (hd outer)"
    using outer_ne unfolding outer_def by (rule hd_dropWhile)
  ultimately show "\<not> is_whitespace (hd (trim s))" by simp
qed

lemma labels_example:
  "labels (formData (fst (handleLabelsChange (js '' a, ,b  ,,c d '') SmartTicketGenerator_init)))
     = [js ''a'', js ''b'', js ''c d'']"
  by (simp add: handleLabelsChange_def js_def trim_def is_whitespace_def)

text \<open>
  C10: after any edit of the Labels field, with any text and from any state, every label
  in the form is non-empty and neither begins nor ends with a whitespace code unit.
\<close>

theorem labels_trimmed_nonempty:
  "label \<in> set (labels (formData (fst (handleLabelsChange v s)))) \<Longrightarrow>
     label \<noteq> [] \<and> \<not> is_whitespace (hd label) \<and> \<not> is_whitespace (last label)"
proof -
  assume "label \<in> set (labels (formData (fst (handleLabelsChange v s))))"
  then have "label \<in> set (filter (\<lambda>l. l \<noteq> []) (map trim (split 0x2C v)))"
    by (simp add: handleLabelsChange_def)
  then obtain p where "label = trim p" and "trim p \<noteq> []" by auto
  then show ?thesis using trim_ends [of p] by simp
qed

text \<open>Typing " a, ,b  ,,c d " leaves the labels a, b and c d; the last one is checked.\<close>

theorem labels_trimmed_nonempty_witness:
  "js ''c d'' \<in> set (labels (formData (fst
      (handleLabelsChange (js '' a, ,b  ,,c d '') SmartTicketGenerator_init)))) \<and>
   js ''c d'' \<noteq> [] \<and> \<not> is_whitespace (hd (js ''c d'')) \<and>
   \<not> is_whitespace (last (js ''c d''))"
proof -
  have m: "js ''c d'' \<in> set (labels (formData (fst
      (handleLabelsChange (js '' a, ,b  ,,c d '') SmartTicketGenerator_init))))"
    by (simp add: labels_example)
  from labels_trimmed_nonempty [OF m] m show ?thesis by simp
qed

end
